theory Spec2Isabelle
  imports Main "HOL-Library.Word"
begin

unbundle bit_operations_syntax

section \<open>The core record (core.h)\<close>

text \<open>
  \<^verbatim>\<open>typedef uint32_t ulabel;
  struct core { ulabel label; uint64_t start; uint64_t end; };\<close>
  The field \<^verbatim>\<open>end\<close> is written \<open>end_pos\<close> here, \<open>end\<close> being reserved.
\<close>

type_synonym ulabel = "32 word"

record core =
  label :: ulabel
  start :: "64 word"
  end_pos :: "64 word"

text \<open>\<^verbatim>\<open>init_core4\<close> stores its three arguments.\<close>

definition init_core4 :: "ulabel \<Rightarrow> 64 word \<Rightarrow> 64 word \<Rightarrow> core" where
  "init_core4 l s e = \<lparr>label = l, start = s, end_pos = e\<rparr>"

subsection \<open>Comparison macros\<close>

text \<open>
  \<^verbatim>\<open>#define core_eq(lhs, rhs) ((lhs)->label & 3) == ((rhs)->label & 3)\<close>
  and its five siblings. The operands are \<^verbatim>\<open>uint32_t\<close>, so the comparisons are unsigned.
\<close>

definition core_eq :: "core \<Rightarrow> core \<Rightarrow> bool" where
  "core_eq lhs rhs = ((label lhs AND 3) = (label rhs AND 3))"

definition core_neq :: "core \<Rightarrow> core \<Rightarrow> bool" where
  "core_neq lhs rhs = ((label lhs AND 3) \<noteq> (label rhs AND 3))"

definition core_gt :: "core \<Rightarrow> core \<Rightarrow> bool" where
  "core_gt lhs rhs = ((label lhs AND 3) > (label rhs AND 3))"

definition core_lt :: "core \<Rightarrow> core \<Rightarrow> bool" where
  "core_lt lhs rhs = ((label lhs AND 3) < (label rhs AND 3))"

definition core_geq :: "core \<Rightarrow> core \<Rightarrow> bool" where
  "core_geq lhs rhs = ((label lhs AND 3) \<ge> (label rhs AND 3))"

definition core_leq :: "core \<Rightarrow> core \<Rightarrow> bool" where
  "core_leq lhs rhs = ((label lhs AND 3) \<le> (label rhs AND 3))"

text \<open>The two low bits of a label, read as a number in 0..3.\<close>

definition low2 :: "core \<Rightarrow> nat" where
  "low2 c = unat (label c) mod 4"

section \<open>Memory reads\<close>

text \<open>
  The initialisers receive a pointer \<^verbatim>\<open>begin\<close> into an array and dereference
  \<^verbatim>\<open>begin + k\<close> with no check. The array is modelled as the list of its elements from
  \<^verbatim>\<open>begin\<close> onwards; \<open>load p off\<close> is \<^verbatim>\<open>*(p + off)\<close>, and \<open>None\<close> stands for a
  read outside the array (undefined behaviour in C).
\<close>

type_synonym byte = "8 word"

definition load :: "'a list \<Rightarrow> int \<Rightarrow> 'a option" where
  "load p off = (if 0 \<le> off \<and> off < int (length p) then Some (p ! nat off) else None)"

section \<open>The fingerprint hash (core.c, murmurhash32)\<close>

text \<open>
  \<^verbatim>\<open>blocks[i]\<close> reads four bytes as one \<^verbatim>\<open>uint32_t\<close>; the byte order is that of the
  machine, taken little-endian here.
\<close>

definition getblock32 :: "byte list \<Rightarrow> nat \<Rightarrow> 32 word" where
  "getblock32 p i =
     ucast (p ! (4 * i)) OR push_bit 8 (ucast (p ! (4 * i + 1)))
       OR push_bit 16 (ucast (p ! (4 * i + 2))) OR push_bit 24 (ucast (p ! (4 * i + 3)))"

text \<open>
  One round of the loop body:
  \<^verbatim>\<open>k1 *= c1; k1 = (k1 << 15) | (k1 >> (32 - 15)); k1 *= c2;
  h1 ^= k1; h1 = (h1 << 15) | (h1 >> (32 - 15)); h1 = h1 * 5 + 0xe6546b64;\<close>
\<close>

definition mix_block :: "32 word \<Rightarrow> 32 word \<Rightarrow> 32 word" where
  "mix_block blk h =
     (let k1 = blk;
          k1 = k1 * 0xcc9e2d51;
          k1 = push_bit 15 k1 OR drop_bit (32 - 15) k1;
          k1 = k1 * 0x1b873593;
          h1 = h XOR k1;
          h1 = push_bit 15 h1 OR drop_bit (32 - 15) h1;
          h1 = h1 * 5 + 0xe6546b64
      in h1)"

text \<open>
  \<^verbatim>\<open>for (int i = -nblocks; i; i++)\<close> with \<^verbatim>\<open>blocks = data + nblocks * 4\<close>: the third
  argument is \<open>-i\<close>, the number of rounds left, and \<^verbatim>\<open>blocks[i]\<close> is block
  \<open>nblocks - (-i)\<close> of the data.
\<close>

fun body_loop :: "byte list \<Rightarrow> nat \<Rightarrow> nat \<Rightarrow> 32 word \<Rightarrow> 32 word" where
  "body_loop data nblocks 0 h1 = h1"
| "body_loop data nblocks (Suc n) h1 =
     body_loop data nblocks n (mix_block (getblock32 data (nblocks - Suc n)) h1)"

text \<open>
  The \<^verbatim>\<open>switch (len & 3)\<close>, returning the pair \<open>(k1, h1)\<close> it leaves. Cases 3 and 2
  end in \<^verbatim>\<open>break\<close>, so they change \<open>k1\<close> only; case 1 alone mixes \<open>k1\<close> into
  \<open>h1\<close>.
\<close>

definition tail_switch :: "byte list \<Rightarrow> nat \<Rightarrow> 32 word \<Rightarrow> 32 word \<times> 32 word" where
  "tail_switch tail r h1 =
     (let k1 = 0 in
      if r = 3 then (k1 XOR push_bit 16 (ucast (tail ! 2)), h1)
      else if r = 2 then (k1 XOR push_bit 8 (ucast (tail ! 1)), h1)
      else if r = 1 then
        (let k1 = k1 XOR ucast (tail ! 0);
             k1 = k1 * 0xcc9e2d51;
             k1 = push_bit 15 k1 OR drop_bit (32 - 15) k1;
             k1 = k1 * 0x1b873593
         in (k1, h1 XOR k1))
      else (k1, h1))"

definition fmix32 :: "32 word \<Rightarrow> 32 word" where
  "fmix32 h =
     (let h1 = h XOR drop_bit 16 h;
          h1 = h1 * 0x85ebca6b;
          h1 = h1 XOR drop_bit 13 h1;
          h1 = h1 * 0xc2b2ae35;
          h1 = h1 XOR drop_bit 16 h1
      in h1)"

text \<open>
  \<open>murmurhash32 key seed\<close>: the argument \<open>key\<close> is the list of the \<^verbatim>\<open>len\<close> bytes at
  \<^verbatim>\<open>key\<close>, so \<^verbatim>\<open>len\<close> is its length (an \<^verbatim>\<open>int\<close>: below \<open>2 ^ 31\<close>).
\<close>

definition murmurhash32 :: "byte list \<Rightarrow> 32 word \<Rightarrow> 32 word" where
  "murmurhash32 key seed =
     (let len = length key;
          nblocks = len div 4;
          h1 = body_loop key nblocks nblocks seed;
          tail = drop (nblocks * 4) key;
          h1 = snd (tail_switch tail (len mod 4) h1);
          h1 = h1 XOR of_nat len
      in fmix32 h1)"

section \<open>The initialisers (core.c)\<close>

text \<open>
  The tables \<^verbatim>\<open>alphabet\<close> and \<^verbatim>\<open>rc_alphabet\<close> (of \<^verbatim>\<open>int\<close>) are declared in
  encoding.h; they are parameters here, indexed by the \<^verbatim>\<open>unsigned char\<close> read.

  In \<^verbatim>\<open>((distance - 2) << 6) | (char1 << 4) | (char2 << 2) | char3\<close> the first operand
  is a \<^verbatim>\<open>uint64_t\<close> and the others are \<^verbatim>\<open>int\<close>, converted to \<^verbatim>\<open>uint64_t\<close> by sign
  extension (\<open>scast\<close>); the assignment to the 32-bit label keeps the low 32 bits
  (\<open>ucast\<close>).
\<close>

definition init_core1 ::
  "(byte \<Rightarrow> 32 word) \<Rightarrow> byte list \<Rightarrow> 64 word \<Rightarrow> 64 word \<Rightarrow> 64 word \<Rightarrow> core option" where
  "init_core1 alphabet bgn distance start_index end_index =
     (case load bgn 0 of None \<Rightarrow> None | Some b1 \<Rightarrow>
      case load bgn (uint distance - 2) of None \<Rightarrow> None | Some b2 \<Rightarrow>
      case load bgn (uint distance - 1) of None \<Rightarrow> None | Some b3 \<Rightarrow>
        let char1 = alphabet b1;
            char2 = alphabet b2;
            char3 = alphabet b3
        in Some \<lparr>label = ucast (push_bit 6 (distance - 2) OR scast (push_bit 4 char1)
                                OR scast (push_bit 2 char2) OR (scast char3 :: 64 word)),
                 start = start_index, end_pos = end_index\<rparr>)"

definition init_core2 ::
  "(byte \<Rightarrow> 32 word) \<Rightarrow> byte list \<Rightarrow> 64 word \<Rightarrow> 64 word \<Rightarrow> 64 word \<Rightarrow> core option" where
  "init_core2 rc_alphabet bgn distance start_index end_index =
     (case load bgn 0 of None \<Rightarrow> None | Some b1 \<Rightarrow>
      case load bgn (uint distance - 2) of None \<Rightarrow> None | Some b2 \<Rightarrow>
      case load bgn (uint distance - 1) of None \<Rightarrow> None | Some b3 \<Rightarrow>
        let char1 = rc_alphabet b1;
            char2 = rc_alphabet b2;
            char3 = rc_alphabet b3
        in Some \<lparr>label = ucast (push_bit 6 (distance - 2) OR scast (push_bit 4 char1)
                                OR scast (push_bit 2 char2) OR (scast char3 :: 64 word)),
                 start = start_index, end_pos = end_index\<rparr>)"

text \<open>
  \<^verbatim>\<open>ulabel data[4] = {...}\<close> is handed to the hash as \<^verbatim>\<open>4 * sizeof(ulabel)\<close> = 16
  bytes; \<open>bytes_of_ulabel\<close> is the memory image of one element (little-endian, as in
  \<open>getblock32\<close>). The fourth element is \<^verbatim>\<open>distance - 2\<close> narrowed to 32 bits.
\<close>

definition bytes_of_ulabel :: "ulabel \<Rightarrow> byte list" where
  "bytes_of_ulabel w = [ucast w, ucast (drop_bit 8 w), ucast (drop_bit 16 w), ucast (drop_bit 24 w)]"

definition init_core3 :: "core list \<Rightarrow> 64 word \<Rightarrow> core option" where
  "init_core3 bgn distance =
     (case load bgn 0 of None \<Rightarrow> None | Some c0 \<Rightarrow>
      case load bgn (uint distance - 1) of None \<Rightarrow> None | Some c_last \<Rightarrow>
      case load bgn (uint distance - 2) of None \<Rightarrow> None | Some c_prev \<Rightarrow>
        let data = [label c0, label c_prev, label c_last, ucast (distance - 2)]
        in Some \<lparr>label = murmurhash32 (concat (map bytes_of_ulabel data)) 42,
                 start = start c0, end_pos = end_pos c_last\<rparr>)"


section \<open>The reference hash\<close>

text \<open>
  MurmurHash3 (x86, 32 bit) as published, which the documentation of \<^verbatim>\<open>murmurhash32\<close>
  names: the same constants and finaliser, but \<open>h1\<close> is rotated left by 13 in every
  block round, and every case of the tail switch falls through to the next one, so that
  each of the 1 to 3 tail bytes enters \<open>k1\<close> and \<open>k1\<close> is always mixed into \<open>h1\<close>.
\<close>

definition ref_mix_block :: "32 word \<Rightarrow> 32 word \<Rightarrow> 32 word" where
  "ref_mix_block blk h =
     (let k1 = blk;
          k1 = k1 * 0xcc9e2d51;
          k1 = push_bit 15 k1 OR drop_bit (32 - 15) k1;
          k1 = k1 * 0x1b873593;
          h1 = h XOR k1;
          h1 = push_bit 13 h1 OR drop_bit (32 - 13) h1;
          h1 = h1 * 5 + 0xe6546b64
      in h1)"

fun ref_body_loop :: "byte list \<Rightarrow> nat \<Rightarrow> nat \<Rightarrow> 32 word \<Rightarrow> 32 word" where
  "ref_body_loop data nblocks 0 h1 = h1"
| "ref_body_loop data nblocks (Suc n) h1 =
     ref_body_loop data nblocks n (ref_mix_block (getblock32 data (nblocks - Suc n)) h1)"

definition ref_tail :: "byte list \<Rightarrow> nat \<Rightarrow> 32 word \<Rightarrow> 32 word" where
  "ref_tail tail r h1 =
     (let k1 = 0;
          k1 = (if r = 3 then k1 XOR push_bit 16 (ucast (tail ! 2)) else k1);
          k1 = (if r = 3 \<or> r = 2 then k1 XOR push_bit 8 (ucast (tail ! 1)) else k1)
      in if r = 3 \<or> r = 2 \<or> r = 1 then
           (let k1 = k1 XOR ucast (tail ! 0);
                k1 = k1 * 0xcc9e2d51;
                k1 = push_bit 15 k1 OR drop_bit (32 - 15) k1;
                k1 = k1 * 0x1b873593
            in h1 XOR k1)
         else h1)"

definition murmur3_32_ref :: "byte list \<Rightarrow> 32 word \<Rightarrow> 32 word" where
  "murmur3_32_ref key seed =
     (let len = length key;
          nblocks = len div 4;
          h1 = ref_body_loop key nblocks nblocks seed;
          tail = drop (nblocks * 4) key;
          h1 = ref_tail tail (len mod 4) h1;
          h1 = h1 XOR of_nat len
      in fmix32 h1)"

section \<open>The serializer\<close>

text \<open>
  Modelled from the spec: the functions that write and read a core sequence
  (\<^verbatim>\<open>write_lps\<close>, \<^verbatim>\<open>init_lps3\<close>) are only called by the tests. The spec's format is:
  the level in 4 bytes, the core count in 8 bytes, then for each core its label in 4
  bytes, its start in 8 and its end in 8, in sequence order, in one fixed byte order
  (little-endian here). Reading is the inverse and fails with \<open>CorruptData\<close> when the
  stream ends early or the declared count does not match the records available.
\<close>

datatype error = CorruptData

record core_sequence =
  level :: "32 word"
  cores :: "core list"

definition bytes_of_u64 :: "64 word \<Rightarrow> byte list" where
  "bytes_of_u64 w =
     [ucast w, ucast (drop_bit 8 w), ucast (drop_bit 16 w), ucast (drop_bit 24 w),
      ucast (drop_bit 32 w), ucast (drop_bit 40 w), ucast (drop_bit 48 w), ucast (drop_bit 56 w)]"

definition u64_at :: "byte list \<Rightarrow> nat \<Rightarrow> 64 word" where
  "u64_at p off =
     ucast (p ! off) OR push_bit 8 (ucast (p ! (off + 1)))
       OR push_bit 16 (ucast (p ! (off + 2))) OR push_bit 24 (ucast (p ! (off + 3)))
       OR push_bit 32 (ucast (p ! (off + 4))) OR push_bit 40 (ucast (p ! (off + 5)))
       OR push_bit 48 (ucast (p ! (off + 6))) OR push_bit 56 (ucast (p ! (off + 7)))"

text \<open>
  Modelled from the spec: the record of one core, absent from the sources; per the spec
  its label in 4 bytes, then its start and its end in 8 bytes each.
\<close>

definition write_core :: "core \<Rightarrow> byte list" where
  "write_core c = bytes_of_ulabel (label c) @ bytes_of_u64 (start c) @ bytes_of_u64 (end_pos c)"

text \<open>
  Modelled from the spec: \<^verbatim>\<open>write(stream)\<close>, absent from the sources; per the spec it emits
  the level, the core count and every core record in sequence order.
\<close>

definition serializer_write :: "core_sequence \<Rightarrow> byte list" where
  "serializer_write sq =
     bytes_of_ulabel (level sq) @ bytes_of_u64 (of_nat (length (cores sq)))
       @ concat (map write_core (cores sq))"

text \<open>
  Modelled from the spec: the inverse of the core record, and the reading of the declared
  number of records (absent from the sources); a record cut short, or bytes left after the
  last declared record, are \<open>CorruptData\<close>.
\<close>

definition read_core :: "byte list \<Rightarrow> core" where
  "read_core p = \<lparr>label = getblock32 p 0, start = u64_at p 4, end_pos = u64_at p 12\<rparr>"

fun read_cores :: "nat \<Rightarrow> byte list \<Rightarrow> error + core list" where
  "read_cores 0 p = (if p = [] then Inr [] else Inl CorruptData)"
| "read_cores (Suc n) p =
     (if length p < 20 then Inl CorruptData
      else case read_cores n (drop 20 p) of
             Inl e \<Rightarrow> Inl e
           | Inr cs \<Rightarrow> Inr (read_core p # cs))"

text \<open>
  Modelled from the spec: \<^verbatim>\<open>read(stream)\<close>, absent from the sources; per the spec the
  inverse of the writer, failing with \<open>CorruptData\<close> on a stream that ends early or whose
  declared count does not match the records available.
\<close>

definition serializer_read :: "byte list \<Rightarrow> error + core_sequence" where
  "serializer_read p =
     (if length p < 12 then Inl CorruptData
      else case read_cores (unat (u64_at p 4)) (drop 12 p) of
             Inl e \<Rightarrow> Inl e
           | Inr cs \<Rightarrow> Inr \<lparr>level = getblock32 p 0, cores = cs\<rparr>)"

section \<open>Comparison\<close>

lemma and3_take_bit: "(w :: 32 word) AND 3 = take_bit 2 w"
  by (simp add: take_bit_eq_mask mask_eq_exp_minus_1)

lemma and3_unat: "unat ((w :: 32 word) AND 3) = unat w mod 4"
  apply (simp only: and3_take_bit unsigned_take_bit_eq)
  apply (simp add: take_bit_eq_mod)
  done

lemma and3_eq_iff: "((a :: 32 word) AND 3 = b AND 3) = (unat a mod 4 = unat b mod 4)"
  by (simp add: word_unat_eq_iff [of "a AND 3"] and3_unat)

lemma and3_less_iff: "((a :: 32 word) AND 3 < b AND 3) = (unat a mod 4 < unat b mod 4)"
  by (simp add: word_less_nat_alt and3_unat)

lemma and3_le_iff: "((a :: 32 word) AND 3 \<le> b AND 3) = (unat a mod 4 \<le> unat b mod 4)"
  by (simp add: word_le_nat_alt and3_unat)

text \<open>
  C4. Each of the six comparisons is the corresponding comparison of the two low label
  bits (the value \<open>label & 3\<close>, a number in 0..3), and it is unchanged when the rest of the
  label, the start and the end of either operand are replaced by anything else.
\<close>

theorem core_comparisons_low_two_bits:
  "(core_eq a b \<longleftrightarrow> (label a AND 3) = (label b AND 3))
   \<and> (core_neq a b \<longleftrightarrow> (label a AND 3) \<noteq> (label b AND 3))
   \<and> (core_lt a b \<longleftrightarrow> (label a AND 3) < (label b AND 3))
   \<and> (core_gt a b \<longleftrightarrow> (label a AND 3) > (label b AND 3))
   \<and> (core_leq a b \<longleftrightarrow> (label a AND 3) \<le> (label b AND 3))
   \<and> (core_geq a b \<longleftrightarrow> (label a AND 3) \<ge> (label b AND 3))
   \<and> (core_eq a b \<longleftrightarrow> low2 a = low2 b)
   \<and> (core_neq a b \<longleftrightarrow> low2 a \<noteq> low2 b)
   \<and> (core_lt a b \<longleftrightarrow> low2 a < low2 b)
   \<and> (core_gt a b \<longleftrightarrow> low2 a > low2 b)
   \<and> (core_leq a b \<longleftrightarrow> low2 a \<le> low2 b)
   \<and> (core_geq a b \<longleftrightarrow> low2 a \<ge> low2 b)
   \<and> core_eq \<lparr>label = push_bit 2 h OR (label a AND 3), start = s, end_pos = e\<rparr>
              \<lparr>label = push_bit 2 h' OR (label b AND 3), start = s', end_pos = e'\<rparr> = core_eq a b
   \<and> core_neq \<lparr>label = push_bit 2 h OR (label a AND 3), start = s, end_pos = e\<rparr>
              \<lparr>label = push_bit 2 h' OR (label b AND 3), start = s', end_pos = e'\<rparr> = core_neq a b
   \<and> core_lt \<lparr>label = push_bit 2 h OR (label a AND 3), start = s, end_pos = e\<rparr>
              \<lparr>label = push_bit 2 h' OR (label b AND 3), start = s', end_pos = e'\<rparr> = core_lt a b
   \<and> core_gt \<lparr>label = push_bit 2 h OR (label a AND 3), start = s, end_pos = e\<rparr>
              \<lparr>label = push_bit 2 h' OR (label b AND 3), start = s', end_pos = e'\<rparr> = core_gt a b
   \<and> core_leq \<lparr>label = push_bit 2 h OR (label a AND 3), start = s, end_pos = e\<rparr>
              \<lparr>label = push_bit 2 h' OR (label b AND 3), start = s', end_pos = e'\<rparr> = core_leq a b
   \<and> core_geq \<lparr>label = push_bit 2 h OR (label a AND 3), start = s, end_pos = e\<rparr>
              \<lparr>label = push_bit 2 h' OR (label b AND 3), start = s', end_pos = e'\<rparr> = core_geq a b"
proof -
  have keep: "(push_bit 2 x OR (w AND 3)) AND 3 = w AND 3" for x w :: "32 word"
    unfolding and3_take_bit by (rule bit_word_eqI) (auto simp: bit_simps)
  show ?thesis
    unfolding core_eq_def core_neq_def core_lt_def core_gt_def core_leq_def core_geq_def
      low2_def
    by (simp add: keep and3_eq_iff and3_less_iff and3_le_iff)
qed

section \<open>Reads of the initialisers\<close>

lemma load_neg: "off < 0 \<Longrightarrow> load p off = None"
  by (simp add: load_def)

lemma span_offsets:
  fixes distance :: "64 word"
  assumes "2 \<le> distance" "unat distance \<le> length p"
  shows "load p 0 = Some (p ! 0)"
    and "load p (uint distance - 2) = Some (p ! (unat distance - 2))"
    and "load p (uint distance - 1) = Some (p ! (unat distance - 1))"
proof -
  have d: "2 \<le> uint distance" using assms(1) by (simp add: word_le_def)
  have n: "nat (uint distance) = unat distance" by simp
  have l: "uint distance \<le> int (length p)" using assms(2) n by linarith
  have "0 < length p" using d l by linarith
  then show "load p 0 = Some (p ! 0)" by (simp add: load_def)
  have "nat (uint distance - 2) = unat distance - 2"
    using d n by (simp add: nat_diff_distrib)
  moreover have "0 \<le> uint distance - 2" "uint distance - 2 < int (length p)"
    using d l by linarith+
  ultimately show "load p (uint distance - 2) = Some (p ! (unat distance - 2))"
    by (simp only: load_def if_True simp_thms)
  have "nat (uint distance - 1) = unat distance - 1"
    using d n by (simp add: nat_diff_distrib)
  moreover have "0 \<le> uint distance - 1" "uint distance - 1 < int (length p)"
    using d l by linarith+
  ultimately show "load p (uint distance - 1) = Some (p ! (unat distance - 1))"
    by (simp only: load_def if_True simp_thms)
qed

lemma short_offset:
  fixes distance :: "64 word"
  assumes "distance < 2"
  shows "load p (uint distance - 2) = None"
proof -
  have "uint distance < 2" using assms by (simp add: word_less_def)
  then have "uint distance - 2 < 0" by linarith
  then show ?thesis by (rule load_neg)
qed

section \<open>Level-1 label packing\<close>

text \<open>
  Stored into the 32-bit label, the 64-bit expression keeps its low 32 bits, and the sign
  extension of the three \<^verbatim>\<open>int\<close> operands does not reach them.
\<close>

lemma trunc_pack:
  fixes c1 c2 c3 :: "32 word" and d :: "64 word"
  shows "(ucast (push_bit 6 (d - 2) OR scast (push_bit 4 c1)
                                OR scast (push_bit 2 c2) OR (scast c3 :: 64 word)) :: 32 word)
     = push_bit 6 (ucast (d - 2)) OR push_bit 4 c1 OR push_bit 2 c2 OR c3"
  by (rule bit_word_eqI) (auto simp: bit_simps)

lemma code_cases: "c \<le> 3 \<Longrightarrow> c = 0 \<or> c = 1 \<or> c = 2 \<or> c = 3" for c :: "32 word"
  by (auto simp: word_le_nat_alt word_unat_eq_iff [of c]) 

lemma low_bits: 
  fixes k :: "32 word" assumes "k < 2 ^ n" "bit k m" shows "m < n"
proof -
  have "take_bit n k = k" using less_mask_eq [OF assms(1)] by (simp add: take_bit_eq_mask)
  then have "bit (take_bit n k) m" using assms(2) by simp
  then show ?thesis by (simp add: bit_simps)
qed

lemma shift_or_add:
  fixes x k :: "32 word" assumes "k < 2 ^ n"
  shows "push_bit n x OR k = push_bit n x + k"
proof -
  have "\<not> bit (push_bit n x) m \<or> \<not> bit k m" for m
    using low_bits [OF assms, of m] by (auto simp: bit_simps)
  then show ?thesis by (simp add: disjunctive_add)
qed

lemma fields: 
  fixes c1 c2 c3 :: "32 word"
  assumes "c1 \<le> 3" "c2 \<le> 3" "c3 \<le> 3"
  shows "push_bit 4 c1 OR push_bit 2 c2 OR c3 = 16 * c1 + 4 * c2 + c3 \<and> 16 * c1 + 4 * c2 + c3 < 2 ^ 6
     \<and> unat (16 * c1 + 4 * c2 + c3) = 16 * unat c1 + 4 * unat c2 + unat c3"
  using code_cases [OF assms(1)] code_cases [OF assms(2)] code_cases [OF assms(3)]
  by (elim disjE) simp_all

lemma pack_value:
  fixes x c1 c2 c3 :: "32 word"
  assumes "c1 \<le> 3" "c2 \<le> 3" "c3 \<le> 3" "unat x < 2 ^ 26"
  shows "unat (push_bit 6 x OR push_bit 4 c1 OR push_bit 2 c2 OR c3) = 64 * unat x + 16 * unat c1 + 4 * unat c2 + unat c3"
proof -
  let ?k = "16 * c1 + 4 * c2 + c3"
  note f = fields [OF assms(1-3)]
  have k: "unat ?k < 64" using f by (simp add: word_less_nat_alt)
  have "push_bit 6 x OR push_bit 4 c1 OR push_bit 2 c2 OR c3 = push_bit 6 x OR ?k"
    using f by (simp add: or.assoc)
  also have "\<dots> = push_bit 6 x + ?k"
    using f by (simp add: shift_or_add)
  also have "\<dots> = 64 * x + ?k" by (simp add: push_bit_eq_mult)
  finally have "unat (push_bit 6 x OR push_bit 4 c1 OR push_bit 2 c2 OR c3) = unat (64 * x + ?k)"
    by simp
  also have "\<dots> = (64 * unat x + unat ?k) mod 2 ^ 32"
    using assms(4) by (simp add: unat_word_ariths)
  also have "\<dots> = 64 * unat x + unat ?k"
    using assms(4) k by simp
  finally show ?thesis using f by simp
qed

lemma unat_span:
  fixes distance :: "64 word"
  assumes "2 \<le> distance" "unat distance - 2 < 2 ^ 26"
  shows "unat (ucast (distance - 2) :: 32 word) = unat distance - 2"
proof -
  have "unat (distance - 2) = unat distance - 2"
    using assms(1) by (simp add: unat_sub)
  moreover have "unat (ucast (distance - 2) :: 32 word) = unat (distance - 2) mod 2 ^ 32"
    by (simp add: unsigned_ucast_eq take_bit_eq_mod)
  ultimately show ?thesis using assms(2) by simp
qed

lemma init_core1_Some:
  assumes "2 \<le> distance" "unat distance \<le> length bgn"
  shows "init_core1 alphabet bgn distance start_index end_index =
     Some \<lparr>label = push_bit 6 (ucast (distance - 2)) OR push_bit 4 (alphabet (bgn ! 0))
                     OR push_bit 2 (alphabet (bgn ! (unat distance - 2)))
                     OR alphabet (bgn ! (unat distance - 1)),
           start = start_index, end_pos = end_index\<rparr>"
  unfolding init_core1_def
  by (simp add: span_offsets [OF assms] trunc_pack)

lemma init_core2_Some:
  assumes "2 \<le> distance" "unat distance \<le> length bgn"
  shows "init_core2 rc_alphabet bgn distance start_index end_index =
     Some \<lparr>label = push_bit 6 (ucast (distance - 2)) OR push_bit 4 (rc_alphabet (bgn ! 0))
                     OR push_bit 2 (rc_alphabet (bgn ! (unat distance - 2)))
                     OR rc_alphabet (bgn ! (unat distance - 1)),
           start = start_index, end_pos = end_index\<rparr>"
  unfolding init_core2_def
  by (simp add: span_offsets [OF assms] trunc_pack)

lemma init_core3_Some:
  assumes "2 \<le> distance" "unat distance \<le> length bgn"
  shows "init_core3 bgn distance =
     Some \<lparr>label = murmurhash32 (concat (map bytes_of_ulabel
                       [label (bgn ! 0), label (bgn ! (unat distance - 2)),
                        label (bgn ! (unat distance - 1)), ucast (distance - 2)])) 42,
           start = start (bgn ! 0), end_pos = end_pos (bgn ! (unat distance - 1))\<rparr>"
  unfolding init_core3_def
  by (simp only: span_offsets [OF assms] option.case Let_def)

text \<open>
  C1. For a buffer of at least \<open>distance\<close> bytes, \<open>distance \<ge> 3\<close>, whose first,
  second-to-last and last characters of the span have the alphabet codes \<open>c1\<close>, \<open>c2\<close>,
  \<open>c3\<close> in 0..3, \<^verbatim>\<open>init_core1\<close> returns the core with the given start and end and the
  label \<open>((distance - 2) << 6) | (c1 << 4) | (c2 << 2) | c3\<close>, computed as the code's types
  have it (the 32-bit label keeps the low 32 bits of the expression). The result is a
  function of \<open>distance\<close>, the three codes and the two indices alone. While
  \<open>distance - 2\<close> fits the 26 bits left for it, the label is the number
  \<open>64 (distance - 2) + 16 c1 + 4 c2 + c3\<close>.
\<close>

theorem init_core1_label_packing:
  fixes distance :: "64 word" and c1 c2 c3 :: "32 word"
  assumes "3 \<le> distance" and "unat distance \<le> length bgn"
    and "alphabet (bgn ! 0) = c1"
    and "alphabet (bgn ! (unat distance - 2)) = c2"
    and "alphabet (bgn ! (unat distance - 1)) = c3"
    and "c1 \<le> 3" and "c2 \<le> 3" and "c3 \<le> 3"
  shows "init_core1 alphabet bgn distance start_index end_index =
           Some \<lparr>label = push_bit 6 (ucast (distance - 2)) OR push_bit 4 c1 OR push_bit 2 c2 OR c3,
                 start = start_index, end_pos = end_index\<rparr>
         \<and> (unat distance - 2 < 2 ^ 26 \<longrightarrow>
              unat (push_bit 6 (ucast (distance - 2)) OR push_bit 4 c1 OR push_bit 2 c2 OR c3)
                = 64 * (unat distance - 2) + 16 * unat c1 + 4 * unat c2 + unat c3)"
proof -
  have two: "2 \<le> distance"
    using assms(1) by (simp add: word_le_nat_alt)
  have "init_core1 alphabet bgn distance start_index end_index =
           Some \<lparr>label = push_bit 6 (ucast (distance - 2)) OR push_bit 4 c1 OR push_bit 2 c2 OR c3,
                 start = start_index, end_pos = end_index\<rparr>"
    using init_core1_Some [OF two assms(2), of alphabet start_index end_index] assms(3-5)
    by simp
  moreover have "unat (push_bit 6 (ucast (distance - 2)) OR push_bit 4 c1 OR push_bit 2 c2 OR c3)
                = 64 * (unat distance - 2) + 16 * unat c1 + 4 * unat c2 + unat c3"
    if "unat distance - 2 < 2 ^ 26"
    using pack_value [OF assms(6-8), of "ucast (distance - 2)"] unat_span [OF two that]
      that by simp
  ultimately show ?thesis by blast
qed

theorem init_core1_label_packing_witness:
  "(3 :: 64 word) \<le> 5 \<and> unat (5 :: 64 word) \<le> length [0x47, 0x41, 0x41, 0x41, 0x54 :: byte]
   \<and> init_core1 (\<lambda>b. ucast (drop_bit 1 b AND 3)) [0x47, 0x41, 0x41, 0x41, 0x54] 5 10 15
       = Some \<lparr>label = 0xF2, start = 10, end_pos = 15\<rparr>
   \<and> unat (0xF2 :: 32 word) = 64 * (5 - 2) + 16 * 3 + 4 * 0 + 2"
  using init_core1_label_packing [of 5 "[0x47, 0x41, 0x41, 0x41, 0x54]"
      "\<lambda>b. ucast (drop_bit 1 b AND 3)" 3 0 2 10 15]
  by simp

section \<open>Labels above level 1\<close>

lemma getblock32_bytes:
  "ucast (ucast w :: byte) OR push_bit 8 (ucast (ucast (drop_bit 8 w) :: byte))
     OR push_bit 16 (ucast (ucast (drop_bit 16 w) :: byte))
     OR push_bit 24 (ucast (ucast (drop_bit 24 w) :: byte)) = (w :: 32 word)"
proof (rule bit_word_eqI)
  fix n assume "n < LENGTH(32)"
  then consider "n < 8" | "8 \<le> n" "n < 16" | "16 \<le> n" "n < 24" | "24 \<le> n" "n < 32"
    by fastforce
  then show "bit (ucast (ucast w :: byte) OR push_bit 8 (ucast (ucast (drop_bit 8 w) :: byte))
     OR push_bit 16 (ucast (ucast (drop_bit 16 w) :: byte))
     OR push_bit 24 (ucast (ucast (drop_bit 24 w) :: byte)) :: 32 word) n = bit w n"
    by cases (auto simp: bit_simps)
qed

lemma body_loop_4:
  "body_loop p nb 4 h =
     mix_block (getblock32 p (nb - 1)) (mix_block (getblock32 p (nb - 2))
       (mix_block (getblock32 p (nb - 3)) (mix_block (getblock32 p (nb - 4)) h)))"
  by (simp add: eval_nat_numeral)

lemma murmurhash32_16:
  assumes "length p = 16"
  shows "murmurhash32 p seed =
     fmix32 (mix_block (getblock32 p 3) (mix_block (getblock32 p 2)
       (mix_block (getblock32 p 1) (mix_block (getblock32 p 0) seed))) XOR 16)"
  unfolding murmurhash32_def Let_def assms
  by (simp add: body_loop_4 tail_switch_def)

lemma murmurhash32_tuple:
  "murmurhash32 (concat (map bytes_of_ulabel [a, b, c, d])) seed =
     fmix32 (mix_block d (mix_block c (mix_block b (mix_block a seed))) XOR 16)"
proof -
  let ?p = "concat (map bytes_of_ulabel [a, b, c, d])"
  have g: "getblock32 ?p 0 = a" "getblock32 ?p 1 = b" "getblock32 ?p 2 = c" "getblock32 ?p 3 = d"
    by (simp_all add: getblock32_def bytes_of_ulabel_def getblock32_bytes)
  have len: "length ?p = 16" by (simp add: bytes_of_ulabel_def)
  show ?thesis
    by (simp only: murmurhash32_16 [OF len] g)
qed

text \<open>
  What \<^verbatim>\<open>init_core3\<close> computes for a run of \<open>D \<ge> 2\<close> cores: the label is the code's
  \<^verbatim>\<open>murmurhash32\<close>, seed 42, of the 16 bytes of the four labels
  (label of core 0, label of core \<open>D - 2\<close>, label of core \<open>D - 1\<close>, \<open>D - 2\<close> narrowed to 32 bits),
  the start is the start of core 0 and the end is the end of core \<open>D - 1\<close>. The hash
  of the 16 bytes is four block rounds over the four labels themselves, whatever the byte
  order. Replacing any core strictly between core 0 and core \<open>D - 2\<close> changes nothing.
\<close>

lemma init_core3_tuple:
  fixes D :: "64 word"
  assumes "2 \<le> D" and "unat D \<le> length cs"
  shows "init_core3 cs D =
           Some \<lparr>label = murmurhash32 (concat (map bytes_of_ulabel
                             [label (cs ! 0), label (cs ! (unat D - 2)),
                              label (cs ! (unat D - 1)), ucast (D - 2)])) 42,
                 start = start (cs ! 0), end_pos = end_pos (cs ! (unat D - 1))\<rparr>
         \<and> murmurhash32 (concat (map bytes_of_ulabel
                             [label (cs ! 0), label (cs ! (unat D - 2)),
                              label (cs ! (unat D - 1)), ucast (D - 2)])) 42
             = fmix32 (mix_block (ucast (D - 2)) (mix_block (label (cs ! (unat D - 1)))
                 (mix_block (label (cs ! (unat D - 2))) (mix_block (label (cs ! 0)) 42))) XOR 16)
         \<and> (\<forall>i c. 0 < i \<and> i < unat D - 2 \<longrightarrow> init_core3 (cs[i := c]) D = init_core3 cs D)"
proof -
  have upd: "init_core3 (cs[i := c]) D = init_core3 cs D" if "0 < i \<and> i < unat D - 2" for i c
  proof -
    have len: "unat D \<le> length (cs[i := c])" using assms(2) by simp
    have ne: "i \<noteq> 0" "i \<noteq> unat D - 2" "i \<noteq> unat D - 1"
      using that by linarith+
    have "(cs[i := c]) ! 0 = cs ! 0" "(cs[i := c]) ! (unat D - 2) = cs ! (unat D - 2)"
      "(cs[i := c]) ! (unat D - 1) = cs ! (unat D - 1)"
      by (rule nth_list_update_neq, rule ne)+
    then show ?thesis
      by (simp only: init_core3_Some [OF assms(1) len] init_core3_Some [OF assms])
  qed
  show ?thesis
    using upd by (simp only: init_core3_Some [OF assms] murmurhash32_tuple simp_thms) blast
qed

lemma init_core3_example:
  "(2 :: 64 word) \<le> 5
   \<and> init_core3 [\<lparr>label = 70, start = 0, end_pos = 3\<rparr>, \<lparr>label = 129, start = 2, end_pos = 6\<rparr>,
         \<lparr>label = 75, start = 5, end_pos = 8\<rparr>, \<lparr>label = 242, start = 7, end_pos = 12\<rparr>,
         \<lparr>label = 99, start = 11, end_pos = 14\<rparr>] 5
       = Some \<lparr>label = 438536478, start = 0, end_pos = 14\<rparr>
   \<and> init_core3 [\<lparr>label = 70, start = 0, end_pos = 3\<rparr>, \<lparr>label = 4096, start = 2, end_pos = 7\<rparr>,
         \<lparr>label = 75, start = 5, end_pos = 8\<rparr>, \<lparr>label = 242, start = 7, end_pos = 12\<rparr>,
         \<lparr>label = 99, start = 11, end_pos = 14\<rparr>] 5
       = Some \<lparr>label = 438536478, start = 0, end_pos = 14\<rparr>"
proof -
  let ?cs = "[\<lparr>label = 70, start = 0, end_pos = 3\<rparr>, \<lparr>label = 129, start = 2, end_pos = 6\<rparr>,
         \<lparr>label = 75, start = 5, end_pos = 8\<rparr>, \<lparr>label = 242, start = 7, end_pos = 12\<rparr>,
         \<lparr>label = 99, start = 11, end_pos = 14\<rparr>]"
  have h: "(2 :: 64 word) \<le> 5" "unat (5 :: 64 word) \<le> length ?cs" by simp_all
  note t = init_core3_tuple [OF h]
  have v: "fmix32 (mix_block 3 (mix_block 99 (mix_block 242 (mix_block 70 42))) XOR 16) = 438536478"
    by (simp add: mix_block_def fmix32_def)
  have a: "init_core3 ?cs 5 = Some \<lparr>label = 438536478, start = 0, end_pos = 14\<rparr>"
    using t [THEN conjunct1] t [THEN conjunct2, THEN conjunct1] v by simp
  have "0 < (1 :: nat) \<and> 1 < unat (5 :: 64 word) - 2" by simp
  then have "init_core3 (?cs[1 := \<lparr>label = 4096, start = 2, end_pos = 7\<rparr>]) 5 = init_core3 ?cs 5"
    using t [THEN conjunct2, THEN conjunct2] by blast
  then show ?thesis using a h by simp
qed

section \<open>The unchecked precondition of the initialisers\<close>

lemma init_core1_None_iff:
  "init_core1 alphabet bgn distance s e = None \<longleftrightarrow>
     load bgn 0 = None \<or> load bgn (uint distance - 2) = None \<or> load bgn (uint distance - 1) = None"
  by (simp add: init_core1_def Let_def split: option.split)

lemma init_core2_None_iff:
  "init_core2 rc_alphabet bgn distance s e = None \<longleftrightarrow>
     load bgn 0 = None \<or> load bgn (uint distance - 2) = None \<or> load bgn (uint distance - 1) = None"
  by (simp add: init_core2_def Let_def split: option.split)

lemma init_core3_None_iff:
  "init_core3 cs distance = None \<longleftrightarrow>
     load cs 0 = None \<or> load cs (uint distance - 2) = None \<or> load cs (uint distance - 1) = None"
  by (auto simp add: init_core3_def Let_def split: option.split)

text \<open>
  C10. \<^verbatim>\<open>init_core1\<close>, \<^verbatim>\<open>init_core2\<close> and \<^verbatim>\<open>init_core3\<close> validate nothing: each fails
  exactly when one of its three reads (offsets 0, \<open>distance - 2\<close>, \<open>distance - 1\<close>) is outside
  the array. Given \<open>distance \<ge> 2\<close> and an array of at least \<open>distance\<close> elements, the three
  reads are in bounds and each initialiser returns a core. Given \<open>distance < 2\<close>, the offset
  \<open>distance - 2\<close> is negative, before the array, and each initialiser reads out of bounds.
\<close>

theorem initialisers_need_distance_ge_2:
  fixes distance :: "64 word"
  shows
  "(init_core1 alphabet bgn distance s e = None \<longleftrightarrow>
      load bgn 0 = None \<or> load bgn (uint distance - 2) = None \<or> load bgn (uint distance - 1) = None)
   \<and> (init_core2 rc_alphabet bgn distance s e = None \<longleftrightarrow>
      load bgn 0 = None \<or> load bgn (uint distance - 2) = None \<or> load bgn (uint distance - 1) = None)
   \<and> (init_core3 cs distance = None \<longleftrightarrow>
      load cs 0 = None \<or> load cs (uint distance - 2) = None \<or> load cs (uint distance - 1) = None)
   \<and> (2 \<le> distance \<and> unat distance \<le> length bgn \<longrightarrow>
        load bgn 0 = Some (bgn ! 0)
        \<and> load bgn (uint distance - 2) = Some (bgn ! (unat distance - 2))
        \<and> load bgn (uint distance - 1) = Some (bgn ! (unat distance - 1))
        \<and> (\<exists>cr. init_core1 alphabet bgn distance s e = Some cr)
        \<and> (\<exists>cr. init_core2 rc_alphabet bgn distance s e = Some cr))
   \<and> (2 \<le> distance \<and> unat distance \<le> length cs \<longrightarrow>
        load cs 0 = Some (cs ! 0)
        \<and> load cs (uint distance - 2) = Some (cs ! (unat distance - 2))
        \<and> load cs (uint distance - 1) = Some (cs ! (unat distance - 1))
        \<and> (\<exists>cr. init_core3 cs distance = Some cr))
   \<and> (distance < 2 \<longrightarrow>
        load bgn (uint distance - 2) = None \<and> load cs (uint distance - 2) = None
        \<and> init_core1 alphabet bgn distance s e = None
        \<and> init_core2 rc_alphabet bgn distance s e = None
        \<and> init_core3 cs distance = None)"
proof -
  have ok_chars: "load bgn 0 = Some (bgn ! 0)
        \<and> load bgn (uint distance - 2) = Some (bgn ! (unat distance - 2))
        \<and> load bgn (uint distance - 1) = Some (bgn ! (unat distance - 1))
        \<and> (\<exists>cr. init_core1 alphabet bgn distance s e = Some cr)
        \<and> (\<exists>cr. init_core2 rc_alphabet bgn distance s e = Some cr)"
    if "2 \<le> distance \<and> unat distance \<le> length bgn"
    using that span_offsets [of distance bgn] init_core1_Some [of distance bgn alphabet s e]
      init_core2_Some [of distance bgn rc_alphabet s e]
    by simp
  have ok_cores: "load cs 0 = Some (cs ! 0)
        \<and> load cs (uint distance - 2) = Some (cs ! (unat distance - 2))
        \<and> load cs (uint distance - 1) = Some (cs ! (unat distance - 1))
        \<and> (\<exists>cr. init_core3 cs distance = Some cr)"
    if "2 \<le> distance \<and> unat distance \<le> length cs"
    using that span_offsets [of distance cs] init_core3_Some [of distance cs]
    by simp
  have short: "load bgn (uint distance - 2) = None \<and> load cs (uint distance - 2) = None
        \<and> init_core1 alphabet bgn distance s e = None
        \<and> init_core2 rc_alphabet bgn distance s e = None
        \<and> init_core3 cs distance = None"
    if "distance < 2"
    using short_offset [OF that, of bgn] short_offset [OF that, of cs]
    by (simp add: init_core1_None_iff init_core2_None_iff init_core3_None_iff)
  show ?thesis
    using ok_chars ok_cores short
    by (simp only: init_core1_None_iff init_core2_None_iff init_core3_None_iff simp_thms) blast
qed

theorem initialisers_need_distance_ge_2_witness:
  "(2 :: 64 word) \<le> 2 \<and> unat (2 :: 64 word) \<le> length [0x41, 0x43 :: byte]
   \<and> (\<exists>cr. init_core1 (\<lambda>b. ucast (drop_bit 1 b AND 3)) [0x41, 0x43] 2 0 2 = Some cr)
   \<and> (\<exists>cr. init_core2 (\<lambda>b. 3 - ucast (drop_bit 1 b AND 3)) [0x41, 0x43] 2 0 2 = Some cr)
   \<and> (\<exists>cr. init_core3 [\<lparr>label = 70, start = 0, end_pos = 3\<rparr>, \<lparr>label = 71, start = 2, end_pos = 5\<rparr>] 2
          = Some cr)
   \<and> (1 :: 64 word) < 2
   \<and> init_core1 (\<lambda>b. ucast (drop_bit 1 b AND 3)) [0x41, 0x43] 1 0 1 = None
   \<and> init_core2 (\<lambda>b. 3 - ucast (drop_bit 1 b AND 3)) [0x41, 0x43] 1 0 1 = None
   \<and> init_core3 [\<lparr>label = 70, start = 0, end_pos = 3\<rparr>, \<lparr>label = 71, start = 2, end_pos = 5\<rparr>] 1
          = None"
  using initialisers_need_distance_ge_2 [of "\<lambda>b. ucast (drop_bit 1 b AND 3)" "[0x41, 0x43]" 2 0 2
      "\<lambda>b. 3 - ucast (drop_bit 1 b AND 3)"
      "[\<lparr>label = 70, start = 0, end_pos = 3\<rparr>, \<lparr>label = 71, start = 2, end_pos = 5\<rparr>]"]
    initialisers_need_distance_ge_2 [of "\<lambda>b. ucast (drop_bit 1 b AND 3)" "[0x41, 0x43]" 1 0 1
      "\<lambda>b. 3 - ucast (drop_bit 1 b AND 3)"
      "[\<lparr>label = 70, start = 0, end_pos = 3\<rparr>, \<lparr>label = 71, start = 2, end_pos = 5\<rparr>]"]
  by simp

section \<open>The hash against MurmurHash3\<close>

text \<open>The reference definition reproduces published MurmurHash3 test vectors.\<close>

lemma murmur3_32_ref_vectors:
  "murmur3_32_ref [] 0 = 0
   \<and> murmur3_32_ref [0x74, 0x65, 0x73, 0x74] 0 = 0xba6bd213
   \<and> murmur3_32_ref [0x61, 0x62, 0x63] 0 = 0xb3dd93fa
   \<and> murmur3_32_ref [0x61, 0x61] 0x9747b28c = 0x5d211726
   \<and> murmur3_32_ref [0x61] 0x9747b28c = 0x7fa09ea6"
  by (simp add: murmur3_32_ref_def ref_tail_def ref_mix_block_def fmix32_def getblock32_def)

lemma murmurhash32_short:
  "murmurhash32 [] seed = murmur3_32_ref [] seed
   \<and> murmurhash32 [a] seed = murmur3_32_ref [a] seed"
  by (simp add: murmurhash32_def murmur3_32_ref_def tail_switch_def ref_tail_def Let_def)

lemma murmurhash32_tail_dropped:
  "murmurhash32 [a, b] seed = fmix32 (seed XOR 2)
   \<and> murmurhash32 [a, b, c] seed = fmix32 (seed XOR 3)"
  by (simp add: murmurhash32_def tail_switch_def Let_def)

lemma murmurhash32_vectors:
  "murmurhash32 [0x61, 0x61] 0x9747b28c = 0xa8e39363
   \<and> murmurhash32 [0x61, 0x62, 0x63] 0 = 0x85f0b427
   \<and> murmurhash32 [0x74, 0x65, 0x73, 0x74] 0 = 0xd1e46dde"
  by (simp add: murmurhash32_def tail_switch_def mix_block_def fmix32_def getblock32_def)

lemma ref_body_loop_4:
  "ref_body_loop p nb 4 h =
     ref_mix_block (getblock32 p (nb - 1)) (ref_mix_block (getblock32 p (nb - 2))
       (ref_mix_block (getblock32 p (nb - 3)) (ref_mix_block (getblock32 p (nb - 4)) h)))"
  by (simp add: eval_nat_numeral)

text \<open>The 16 bytes \<^verbatim>\<open>init_core3\<close> hashes for the labels 70, 242, 99 and \<open>D - 2 = 3\<close>.\<close>

lemma tuple_vectors:
  "murmurhash32 [70, 0, 0, 0, 242, 0, 0, 0, 99, 0, 0, 0, 3, 0, 0, 0] 42 = 438536478
   \<and> murmur3_32_ref [70, 0, 0, 0, 242, 0, 0, 0, 99, 0, 0, 0, 3, 0, 0, 0] 42 = 3614794116"
  by (simp add: murmurhash32_16 murmur3_32_ref_def ref_body_loop_4 ref_tail_def
      getblock32_def mix_block_def ref_mix_block_def fmix32_def)

text \<open>
  C3. \<^verbatim>\<open>murmurhash32\<close> is not MurmurHash3. On a key of 2 or 3 bytes it returns the
  finaliser of \<open>seed XOR len\<close>, whatever the bytes are: the tail switch leaves through
  \<^verbatim>\<open>break\<close> before \<open>k1\<close> is mixed into \<open>h1\<close>. On a key with a 4-byte block it rotates
  \<open>h1\<close> by 15 where MurmurHash3 rotates by 13. The values of the code and of the
  reference differ on the keys "aa" (seed \<open>0x9747b28c\<close>), "abc" and "test" (seed 0), and
  on a 16-byte key as \<^verbatim>\<open>init_core3\<close> builds it (seed 42).
\<close>

theorem murmurhash32_not_murmur3:
  "murmurhash32 [a, b] seed = fmix32 (seed XOR 2)
   \<and> murmurhash32 [a, b, c] seed = fmix32 (seed XOR 3)
   \<and> murmurhash32 [0x61, 0x61] 0x9747b28c = 0xa8e39363
   \<and> murmur3_32_ref [0x61, 0x61] 0x9747b28c = 0x5d211726
   \<and> murmurhash32 [0x61, 0x62, 0x63] 0 = 0x85f0b427
   \<and> murmur3_32_ref [0x61, 0x62, 0x63] 0 = 0xb3dd93fa
   \<and> murmurhash32 [0x74, 0x65, 0x73, 0x74] 0 = 0xd1e46dde
   \<and> murmur3_32_ref [0x74, 0x65, 0x73, 0x74] 0 = 0xba6bd213
   \<and> murmurhash32 [70, 0, 0, 0, 242, 0, 0, 0, 99, 0, 0, 0, 3, 0, 0, 0] 42 = 438536478
   \<and> murmur3_32_ref [70, 0, 0, 0, 242, 0, 0, 0, 99, 0, 0, 0, 3, 0, 0, 0] 42 = 3614794116"
  using murmurhash32_tail_dropped [of a b seed c] murmurhash32_vectors murmur3_32_ref_vectors
    tuple_vectors
  by (simp only: simp_thms)

section \<open>The label above level 1 against the fingerprint hash\<close>

text \<open>
  C2. For a run of \<open>D \<ge> 2\<close> cores the label of the new core is to be the 32-bit
  fingerprint hash (MurmurHash3, seed 42) of the labels of core 0, core \<open>D - 2\<close>,
  core \<open>D - 1\<close> and of \<open>D - 2\<close>. \<^verbatim>\<open>init_core3\<close> takes this tuple, this seed, the start
  of core 0 and the end of core \<open>D - 1\<close>, but the label it stores is not that hash: on
  the run of five cores with labels 70, 129, 75, 242, 99 the tuple is (70, 242, 99, 3),
  the code stores 438536478, and MurmurHash3 of the tuple's 16 bytes is 3614794116.
\<close>

theorem init_core3_label_not_murmur3:
  "init_core3 [\<lparr>label = 70, start = 0, end_pos = 3\<rparr>, \<lparr>label = 129, start = 2, end_pos = 6\<rparr>,
         \<lparr>label = 75, start = 5, end_pos = 8\<rparr>, \<lparr>label = 242, start = 7, end_pos = 12\<rparr>,
         \<lparr>label = 99, start = 11, end_pos = 14\<rparr>] 5
       = Some \<lparr>label = 438536478, start = 0, end_pos = 14\<rparr>
   \<and> concat (map bytes_of_ulabel [70, 242, 99, 3])
       = [70, 0, 0, 0, 242, 0, 0, 0, 99, 0, 0, 0, 3, 0, 0, 0]
   \<and> murmur3_32_ref (concat (map bytes_of_ulabel [70, 242, 99, 3])) 42 = 3614794116"
proof -
  have b: "concat (map bytes_of_ulabel [70, 242, 99, 3])
       = [70, 0, 0, 0, 242, 0, 0, 0, 99, 0, 0, 0, 3, 0, 0, 0]"
    by (simp add: bytes_of_ulabel_def)
  show ?thesis
    using init_core3_example [THEN conjunct2, THEN conjunct1] tuple_vectors [THEN conjunct2]
    by (simp only: b simp_thms)
qed

section \<open>Round trip of the serializer\<close>

lemma u64_bytes:
  "ucast (ucast w :: byte) OR push_bit 8 (ucast (ucast (drop_bit 8 w) :: byte))
     OR push_bit 16 (ucast (ucast (drop_bit 16 w) :: byte))
     OR push_bit 24 (ucast (ucast (drop_bit 24 w) :: byte))
     OR push_bit 32 (ucast (ucast (drop_bit 32 w) :: byte))
     OR push_bit 40 (ucast (ucast (drop_bit 40 w) :: byte))
     OR push_bit 48 (ucast (ucast (drop_bit 48 w) :: byte))
     OR push_bit 56 (ucast (ucast (drop_bit 56 w) :: byte)) = (w :: 64 word)"
proof (rule bit_word_eqI)
  fix n assume "n < LENGTH(64)"
  then consider "n < 8" | "8 \<le> n" "n < 16" | "16 \<le> n" "n < 24" | "24 \<le> n" "n < 32"
    | "32 \<le> n" "n < 40" | "40 \<le> n" "n < 48" | "48 \<le> n" "n < 56" | "56 \<le> n" "n < 64"
    by fastforce
  then show "bit (ucast (ucast w :: byte) OR push_bit 8 (ucast (ucast (drop_bit 8 w) :: byte))
     OR push_bit 16 (ucast (ucast (drop_bit 16 w) :: byte))
     OR push_bit 24 (ucast (ucast (drop_bit 24 w) :: byte))
     OR push_bit 32 (ucast (ucast (drop_bit 32 w) :: byte))
     OR push_bit 40 (ucast (ucast (drop_bit 40 w) :: byte))
     OR push_bit 48 (ucast (ucast (drop_bit 48 w) :: byte))
     OR push_bit 56 (ucast (ucast (drop_bit 56 w) :: byte)) :: 64 word) n = bit w n"
    by cases (auto simp: bit_simps)
qed

lemma length_write_core: "length (write_core c) = 20"
  by (simp add: write_core_def bytes_of_ulabel_def bytes_of_u64_def)

lemma read_core_write_core: "read_core (write_core c @ rest) = c"
  by (simp add: read_core_def write_core_def bytes_of_ulabel_def bytes_of_u64_def
      getblock32_def u64_at_def getblock32_bytes u64_bytes)

lemma read_cores_write:
  "read_cores (length cs) (concat (map write_core cs)) = Inr cs"
proof (induction cs)
  case Nil
  show ?case by simp
next
  case (Cons c cs)
  have "read_cores (Suc (length cs)) (write_core c @ concat (map write_core cs))
          = Inr (read_core (write_core c @ concat (map write_core cs)) # cs)"
    using Cons.IH by (simp add: length_write_core)
  then show ?case by (simp add: read_core_write_core)
qed

lemma header_write:
  "length (serializer_write sq) \<ge> 12
   \<and> getblock32 (serializer_write sq) 0 = level sq
   \<and> u64_at (serializer_write sq) 4 = of_nat (length (cores sq))
   \<and> drop 12 (serializer_write sq) = concat (map write_core (cores sq))"
  by (simp add: serializer_write_def bytes_of_ulabel_def bytes_of_u64_def
      getblock32_def u64_at_def getblock32_bytes u64_bytes)

text \<open>
  C8. For a non-empty core sequence (whose count fits the 8 bytes the format gives it),
  reading what was written returns the sequence itself: the same level, the same number of
  cores, and the same label, start and end for every core, in order.
\<close>

theorem serializer_round_trip:
  assumes "cores sq \<noteq> []" and "length (cores sq) < 2 ^ 64"
  shows "serializer_read (serializer_write sq) = Inr sq"
proof -
  have n: "unat (of_nat (length (cores sq)) :: 64 word) = length (cores sq)"
    using assms(2) by (simp add: unat_of_nat)
  have "serializer_read (serializer_write sq) = Inr \<lparr>level = level sq, cores = cores sq\<rparr>"
    unfolding serializer_read_def
    using header_write [of sq] by (simp add: n read_cores_write)
  then show ?thesis by simp
qed

theorem serializer_round_trip_witness:
  "serializer_write \<lparr>level = 1, cores = [\<lparr>label = 70, start = 0, end_pos = 3\<rparr>,
                                          \<lparr>label = 129, start = 2, end_pos = 6\<rparr>]\<rparr>
     = [1, 0, 0, 0, 2, 0, 0, 0, 0, 0, 0, 0,
        70, 0, 0, 0, 0, 0, 0, 0, 0, 0, 0, 0, 3, 0, 0, 0, 0, 0, 0, 0,
        129, 0, 0, 0, 2, 0, 0, 0, 0, 0, 0, 0, 6, 0, 0, 0, 0, 0, 0, 0]
   \<and> serializer_read [1, 0, 0, 0, 2, 0, 0, 0, 0, 0, 0, 0,
        70, 0, 0, 0, 0, 0, 0, 0, 0, 0, 0, 0, 3, 0, 0, 0, 0, 0, 0, 0,
        129, 0, 0, 0, 2, 0, 0, 0, 0, 0, 0, 0, 6, 0, 0, 0, 0, 0, 0, 0]
     = Inr \<lparr>level = 1, cores = [\<lparr>label = 70, start = 0, end_pos = 3\<rparr>,
                                 \<lparr>label = 129, start = 2, end_pos = 6\<rparr>]\<rparr>"
proof -
  let ?sq = "\<lparr>level = 1, cores = [\<lparr>label = 70, start = 0, end_pos = 3\<rparr>,
                                   \<lparr>label = 129, start = 2, end_pos = 6\<rparr>]\<rparr>"
  have w: "serializer_write ?sq = [1, 0, 0, 0, 2, 0, 0, 0, 0, 0, 0, 0,
        70, 0, 0, 0, 0, 0, 0, 0, 0, 0, 0, 0, 3, 0, 0, 0, 0, 0, 0, 0,
        129, 0, 0, 0, 2, 0, 0, 0, 0, 0, 0, 0, 6, 0, 0, 0, 0, 0, 0, 0]"
    by (simp add: serializer_write_def write_core_def bytes_of_ulabel_def bytes_of_u64_def)
  have "cores ?sq \<noteq> []" "length (cores ?sq) < 2 ^ 64" by simp_all
  from serializer_round_trip [OF this] show ?thesis
    unfolding w by simp
qed

end
